theory Spec2Isabelle
  imports Complex_Main "HOL-Library.Sublist"
begin

section \<open>JavaScript values used by the renderer\<close>

text \<open>
  A JavaScript string is modelled as a \<^typ>\<open>string\<close>; a value of type
  \<open>string | undefined\<close> as a \<^typ>\<open>string option\<close>, \<open>None\<close> being
  \<open>undefined\<close>. Such a value is falsy when it is \<open>undefined\<close> or the empty string.
\<close>

definition truthy :: "string option \<Rightarrow> bool" where
  "truthy v = (case v of None \<Rightarrow> False | Some s \<Rightarrow> s \<noteq> [])"

text \<open>\<open>s.startsWith(p)\<close>, \<open>s.endsWith(p)\<close> and \<open>s.includes(p)\<close>.\<close>

definition startsWith :: "string \<Rightarrow> string \<Rightarrow> bool" where
  "startsWith s p = prefix p s"

definition endsWith :: "string \<Rightarrow> string \<Rightarrow> bool" where
  "endsWith s p = suffix p s"

definition includes_str :: "string \<Rightarrow> string \<Rightarrow> bool" where
  "includes_str s p = sublist p s"

text \<open>
  A JavaScript \<open>Set\<close> of strings iterates in insertion order and holds each element
  once: it is a duplicate-free list, \<open>add\<close> appending an element that is not yet there.
  \<open>Array.from(new Set(xs))\<close> adds the elements of \<open>xs\<close> from left to right.
\<close>

definition set_add :: "'a \<Rightarrow> 'a list \<Rightarrow> 'a list" where
  "set_add x s = (if x \<in> set s then s else s @ [x])"

definition uniq :: "'a list \<Rightarrow> 'a list" where
  "uniq xs = fold set_add xs []"

section \<open>Route flattening (\<open>src/node/utils.ts\<close>)\<close>

text \<open>
  A route record has a \<open>path\<close> and optional \<open>children\<close>. The code tests
  \<open>route.path\<close> for truthiness and \<open>route.children\<close> with \<open>Array.isArray\<close>, so both
  may be absent at run time.
\<close>

datatype RouteRecordRaw =
  RouteRecordRaw (path: "string option") (children: "RouteRecordRaw list option")

text \<open>\<open>prefix.replace(/\/$/g, '')\<close>: one slash at the very end is removed, if there is one.\<close>

definition strip_trailing_slash :: "string \<Rightarrow> string" where
  "strip_trailing_slash s = (if s \<noteq> [] \<and> last s = CHR ''/'' then butlast s else s)"

text \<open>
  \<open>getPaths(routes, prefix = '')\<close> threads the set \<open>paths\<close> of the enclosing function
  through the traversal. The default value of \<open>prefix\<close> is taken when the argument is
  \<open>undefined\<close>; the trailing slash is removed once, before the loop.
  \<open>getPaths_for\<close> is the \<open>for\<close> loop over \<open>routes\<close>, and \<open>join_prefix\<close> the
  conditional expression that gives \<open>path\<close> its value for a route with a path.
\<close>

definition join_prefix :: "string \<Rightarrow> string \<Rightarrow> string" where
  "join_prefix pre rp =
     (if pre \<noteq> [] \<and> \<not> startsWith rp ''/'' then pre @ ''/'' @ rp else rp)"

fun getPaths :: "RouteRecordRaw list \<Rightarrow> string option \<Rightarrow> string list \<Rightarrow> string list"
  and getPaths_for :: "RouteRecordRaw list \<Rightarrow> string \<Rightarrow> string list \<Rightarrow> string list"
where
  "getPaths routes prefix_arg paths =
     getPaths_for routes
       (strip_trailing_slash (case prefix_arg of None \<Rightarrow> [] | Some p \<Rightarrow> p)) paths"
| "getPaths_for [] pre paths = paths"
| "getPaths_for (RouteRecordRaw rp ch # routes) pre paths =
     (let p = (if truthy rp then Some (join_prefix pre (the rp)) else rp);
          paths1 = (if truthy rp then set_add (the p) paths else paths);
          paths2 = (case ch of Some cs \<Rightarrow> getPaths cs p paths1 | None \<Rightarrow> paths1)
      in getPaths_for routes pre paths2)"

definition routesToPaths :: "RouteRecordRaw list option \<Rightarrow> string list" where
  "routesToPaths routes =
     (case routes of None \<Rightarrow> [''/''] | Some rs \<Rightarrow> getPaths rs None [])"

section \<open>Route selection (\<open>src/node/render.ts\<close>)\<close>

definition DefaultIncludedRoutes :: "string list \<Rightarrow> string list" where
  "DefaultIncludedRoutes paths =
     filter (\<lambda>i. \<not> includes_str i '':'' \<and> \<not> includes_str i ''*'') paths"

text \<open>
  The two options that decide the routes. Destructuring gives \<open>includedRoutes\<close> the
  default \<open>DefaultIncludedRoutes\<close> and \<open>includeAllRoutes\<close> the default \<open>false\<close> when
  the option is not set.
\<close>

record ViteSSGOptions =
  includedRoutes :: "(string list \<Rightarrow> string list) option"
  includeAllRoutes :: "bool option"

definition routesPaths :: "ViteSSGOptions \<Rightarrow> RouteRecordRaw list option \<Rightarrow> string list" where
  "routesPaths opts routes =
     (let includedRoutes' = (case includedRoutes opts of None \<Rightarrow> DefaultIncludedRoutes | Some f \<Rightarrow> f);
          includeAllRoutes' = (case includeAllRoutes opts of None \<Rightarrow> False | Some b \<Rightarrow> b)
      in uniq (if includeAllRoutes' then routesToPaths routes
               else includedRoutes' (routesToPaths routes)))"


section \<open>Path functions of the platform (\<open>node:path\<close>, POSIX flavour)\<close>

text \<open>
  \<open>join\<close> and \<open>dirname\<close> come from Node's \<open>node:path\<close> module, which is not part of
  the repository; they are modelled after Node's POSIX implementation. \<open>join\<close> puts a
  slash between its non-empty arguments and normalises the result: empty segments and
  \<open>.\<close> segments are dropped, a \<open>..\<close> segment removes the segment before it, a leading
  and a trailing slash are kept, and the empty result is \<open>.\<close>.
\<close>

fun splitSlash :: "string \<Rightarrow> string list" where
  "splitSlash [] = [] # []"
| "splitSlash (c # cs) =
     (if c = CHR ''/'' then [] # splitSlash cs
      else (case splitSlash cs of s # ss \<Rightarrow> (c # s) # ss | [] \<Rightarrow> [c] # []))"

fun joinSlash :: "string list \<Rightarrow> string" where
  "joinSlash [] = []"
| "joinSlash [s] = s"
| "joinSlash (s # t # ss) = s @ ''/'' @ joinSlash (t # ss)"

text \<open>\<open>res\<close> is the stack of the segments kept so far, the last one first.\<close>

fun normalizeString :: "bool \<Rightarrow> string list \<Rightarrow> string list \<Rightarrow> string list" where
  "normalizeString allowAboveRoot [] res = rev res"
| "normalizeString allowAboveRoot (s # ss) res =
     (if s = [] \<or> s = ''.'' then normalizeString allowAboveRoot ss res
      else if s = ''..'' then
        (case res of
           r # rs \<Rightarrow>
             if r \<noteq> ''..'' then normalizeString allowAboveRoot ss rs
             else if allowAboveRoot then normalizeString allowAboveRoot ss (s # res)
             else normalizeString allowAboveRoot ss res
         | [] \<Rightarrow>
             if allowAboveRoot then normalizeString allowAboveRoot ss [s]
             else normalizeString allowAboveRoot ss [])
      else normalizeString allowAboveRoot ss (s # res))"

definition normalize_path :: "string \<Rightarrow> string" where
  "normalize_path p =
     (if p = [] then ''.''
      else
        let isAbsolute = (hd p = CHR ''/'');
            trailingSeparator = (last p = CHR ''/'');
            q = joinSlash (normalizeString (\<not> isAbsolute) (splitSlash p) [])
        in if q = [] then (if isAbsolute then ''/'' else if trailingSeparator then ''./'' else ''.'')
           else (if isAbsolute then ''/'' else []) @ q @ (if trailingSeparator then ''/'' else []))"

definition join :: "string list \<Rightarrow> string" where
  "join args =
     (let joined = joinSlash (filter (\<lambda>arg. arg \<noteq> []) args)
      in if joined = [] then ''.'' else normalize_path joined)"


text \<open>
  A segment that normalisation leaves as it is: not empty, without a slash, and neither
  \<open>.\<close> nor \<open>..\<close>.
\<close>

definition plain_segment :: "string \<Rightarrow> bool" where
  "plain_segment s \<longleftrightarrow> s \<noteq> [] \<and> CHR ''/'' \<notin> set s \<and> s \<noteq> ''.'' \<and> s \<noteq> ''..''"

section \<open>The page renderer (\<open>src/node/renderWorker.ts\<close>): pure parts\<close>

text \<open>\<open>s.replace(/^\//g, '')\<close>: one slash at the very start is removed, if there is one.\<close>

definition strip_leading_slash :: "string \<Rightarrow> string" where
  "strip_leading_slash s = (case s of [] \<Rightarrow> [] | c # r \<Rightarrow> if c = CHR ''/'' then r else s)"

definition relativeRouteFile :: "string \<Rightarrow> string" where
  "relativeRouteFile route =
     strip_leading_slash (if endsWith route ''/'' then route @ ''index'' else route) @ ''.html''"

text \<open>\<open>dirStyle\<close> is compared with the string \<open>'nested'\<close>; every other value is the flat style.\<close>

definition filename :: "string \<Rightarrow> string \<Rightarrow> string" where
  "filename dirStyle route =
     (if dirStyle = ''nested'' then join [strip_leading_slash route, ''index.html'']
      else relativeRouteFile route)"

text \<open>
  \<open>s.replace(pattern, replacement)\<close> with a string pattern replaces the first occurrence
  of the pattern. In the replacement, \<open>$$\<close> stands for a dollar sign, \<open>$&\<close> for the matched
  text, \<open>$`\<close> for the text before the match and \<open>$'\<close> for the text after it; with no
  capture groups every other use of \<open>$\<close> is literal.
\<close>

fun split_first :: "string \<Rightarrow> string \<Rightarrow> (string \<times> string) option" where
  "split_first pat [] = (if pat = [] then Some ([], []) else None)"
| "split_first pat (c # cs) =
     (if prefix pat (c # cs) then Some ([], drop (length pat) (c # cs))
      else map_option (\<lambda>(b, a). (c # b, a)) (split_first pat cs))"

fun GetSubstitution :: "string \<Rightarrow> string \<Rightarrow> string \<Rightarrow> string \<Rightarrow> string" where
  "GetSubstitution matched preceding following [] = []"
| "GetSubstitution matched preceding following [c] = [c]"
| "GetSubstitution matched preceding following (c # d # r) =
     (if c = CHR ''$'' \<and> d = CHR ''$'' then CHR ''$'' # GetSubstitution matched preceding following r
      else if c = CHR ''$'' \<and> d = CHR ''&'' then matched @ GetSubstitution matched preceding following r
      else if c = CHR ''$'' \<and> d = CHR 0x60 then preceding @ GetSubstitution matched preceding following r
      else if c = CHR ''$'' \<and> d = CHR 0x27 then following @ GetSubstitution matched preceding following r
      else c # GetSubstitution matched preceding following (d # r))"

definition replace :: "string \<Rightarrow> string \<Rightarrow> string \<Rightarrow> string" where
  "replace s pat replacement =
     (case split_first pat s of
        None \<Rightarrow> s
      | Some (preceding, following) \<Rightarrow> preceding @ GetSubstitution pat preceding following replacement @ following)"

text \<open>
  \<open>initialState\<close> is \<open>undefined\<close> or a string, the serialised state that the template
  literal puts into the script. \<open>mount_point\<close> is the text that \<open>renderHTML\<close> looks for.
\<close>

definition mount_point :: string where
  \<open>mount_point = ''<div id="app"></div>''\<close>

definition renderHTML :: "string \<Rightarrow> string \<Rightarrow> string option \<Rightarrow> string" where
  \<open>renderHTML indexHTML appHTML initialState =
     (let stateScript =
            (if truthy initialState
             then CHR 0x0A # ''<script>window.__INITIAL_STATE__='' @ the initialState @ ''</script>''
             else [])
      in replace indexHTML mount_point
           (''<div id="app" data-server-rendered="true">'' @ appHTML @ ''</div>'' @ stateScript))\<close>

section \<open>Effects\<close>

text \<open>
  A call into the application, a library or the platform returns, throws or never comes
  back; for an \<open>async\<close> function these are a promise that is fulfilled, rejected or
  never settled. A thrown value is an \<open>Error\<close> object, of which the code reads the
  \<open>stack\<close>.
\<close>

datatype js_error = JSError (stack: string)

datatype 'a outcome = Returns 'a | Throws js_error | Hangs









section \<open>The page renderer (\<open>src/node/renderWorker.ts\<close>): the worker\<close>

record Router =
  push :: "string \<Rightarrow> unit outcome"
  isReady :: "unit outcome"

text \<open>
  The context that the application factory returns. The application and the parsed
  document are opaque (\<open>'app\<close>, \<open>'doc\<close>); \<open>head\<close> is the \<open>updateDOM\<close> method of the head
  manager, if there is one.
\<close>

record ('app, 'doc) ViteSSGContext =
  app :: 'app
  router :: "Router option"
  head :: "('doc \<Rightarrow> 'doc outcome) option"
  initialState :: "string option"
  routes :: "RouteRecordRaw list option"

record WorkerContext =
  route :: string
  dirStyle :: string
  outDir :: string
  indexHTML :: string
  formatting :: string
  out :: string
  ssrEntryPath :: string
  ssrManifest :: "(string \<times> string list) list"





section \<open>Pool size (\<open>src/node/render.ts\<close>)\<close>


section \<open>The batch (\<open>src/node/render.ts\<close>)\<close>









section \<open>An example build\<close>





section \<open>Properties of the route flattening\<close>

subsection \<open>Sets as duplicate-free lists\<close>

lemma set_add_set: "set (set_add x s) = insert x (set s)"
  by (auto simp: set_add_def)

lemma set_add_distinct: "distinct s \<Longrightarrow> distinct (set_add x s)"
  by (simp add: set_add_def)

lemma fold_set_add_distinct: "distinct acc \<Longrightarrow> distinct (fold set_add xs acc)"
  by (induction xs arbitrary: acc) (simp_all add: set_add_distinct)

lemma fold_set_add_id: "distinct (acc @ xs) \<Longrightarrow> fold set_add xs acc = acc @ xs"
  by (induction xs arbitrary: acc) (auto simp: set_add_def)

lemma uniq_distinct: "distinct (uniq xs)"
  by (simp add: uniq_def fold_set_add_distinct)

lemma uniq_id: "distinct xs \<Longrightarrow> uniq xs = xs"
  using fold_set_add_id [of "[]" xs] by (simp add: uniq_def)

lemma includes_char: "includes_str s [c] \<longleftrightarrow> c \<in> set s"
proof (induction s)
  case Nil
  then show ?case by (simp add: includes_str_def)
next
  case (Cons a s)
  then show ?case by (auto simp: includes_str_def sublist_Cons_right)
qed

subsection \<open>The traversal\<close>

text \<open>The set of paths stays duplicate-free and only grows.\<close>

lemma getPaths_distinct: "distinct paths \<Longrightarrow> distinct (getPaths rs pa paths)"
  and getPaths_for_distinct: "distinct paths \<Longrightarrow> distinct (getPaths_for rs pre paths)"
proof (induction rs pa paths and rs pre paths rule: getPaths_getPaths_for.induct)
  case (1 rs prefix_arg paths)
  then show ?case by simp
next
  case (2 pre paths)
  then show ?case by simp
next
  case (3 rp ch rs pre paths)
  then show ?case
    by (auto simp: Let_def set_add_distinct split: option.splits)
qed

lemma getPaths_mono: "set paths \<subseteq> set (getPaths rs pa paths)"
  and getPaths_for_mono: "set paths \<subseteq> set (getPaths_for rs pre paths)"
proof (induction rs pa paths and rs pre paths rule: getPaths_getPaths_for.induct)
  case (1 rs prefix_arg paths)
  then show ?case by simp
next
  case (2 pre paths)
  then show ?case by simp
next
  case (3 rp ch rs pre paths)
  then show ?case
    by (fastforce simp: Let_def set_add_set split: option.splits)
qed

lemma routesToPaths_distinct: "distinct (routesToPaths rs)"
  by (cases rs) (simp_all add: routesToPaths_def getPaths_for_distinct)








subsection \<open>The routes that are dispatched\<close>

text \<open>
  Claim C3, as amended. The list of routes that \<open>render\<close> dispatches has no duplicates,
  whatever the options. When \<open>includedRoutes\<close> is left to its default and
  \<open>includeAllRoutes\<close> is not set, it is the flattened list without the paths that
  contain \<open>:\<close> or \<open>*\<close>, so no entry contains one of them. When \<open>includeAllRoutes\<close> is
  set, it is the flattened list itself: nothing is filtered. When the option
  \<open>includedRoutes\<close> is a function \<open>f\<close> and \<open>includeAllRoutes\<close> is not set, it is what \<open>f\<close>
  makes of the flattened list, without duplicates.
\<close>

theorem routesPaths_default_filter:
  "distinct (routesPaths opts rs) \<and>
   (includedRoutes opts = None \<and> includeAllRoutes opts \<noteq> Some True \<longrightarrow>
      routesPaths opts rs =
        filter (\<lambda>p. CHR '':'' \<notin> set p \<and> CHR ''*'' \<notin> set p) (routesToPaths rs) \<and>
      (\<forall>p \<in> set (routesPaths opts rs). CHR '':'' \<notin> set p \<and> CHR ''*'' \<notin> set p)) \<and>
   (includeAllRoutes opts = Some True \<longrightarrow> routesPaths opts rs = routesToPaths rs) \<and>
   (includedRoutes opts = Some f \<and> includeAllRoutes opts \<noteq> Some True \<longrightarrow>
      routesPaths opts rs = uniq (f (routesToPaths rs)))"
proof (intro conjI impI)
  show "distinct (routesPaths opts rs)"
    by (simp add: routesPaths_def Let_def uniq_distinct)
next
  assume a: "includedRoutes opts = None \<and> includeAllRoutes opts \<noteq> Some True"
  have "routesPaths opts rs = uniq (DefaultIncludedRoutes (routesToPaths rs))"
    using a by (cases "includeAllRoutes opts") (auto simp: routesPaths_def Let_def)
  also have "\<dots> = DefaultIncludedRoutes (routesToPaths rs)"
    by (simp add: uniq_id DefaultIncludedRoutes_def routesToPaths_distinct)
  finally show eq: "routesPaths opts rs =
      filter (\<lambda>p. CHR '':'' \<notin> set p \<and> CHR ''*'' \<notin> set p) (routesToPaths rs)"
    by (simp add: DefaultIncludedRoutes_def includes_char)
  show "\<forall>p \<in> set (routesPaths opts rs). CHR '':'' \<notin> set p \<and> CHR ''*'' \<notin> set p"
    by (simp add: eq)
next
  assume "includeAllRoutes opts = Some True"
  then show "routesPaths opts rs = routesToPaths rs"
    by (simp add: routesPaths_def uniq_id routesToPaths_distinct)
next
  assume "includedRoutes opts = Some f \<and> includeAllRoutes opts \<noteq> Some True"
  then show "routesPaths opts rs = uniq (f (routesToPaths rs))"
    by (cases "includeAllRoutes opts") (auto simp: routesPaths_def Let_def)
qed

text \<open>
  A witness for C3: with the default options a dynamic route, a wildcard route and a
  route given twice leave one entry; with \<open>includeAllRoutes\<close> the dynamic route stays.
\<close>

theorem routesPaths_default_filter_witness:
  "routesPaths \<lparr>includedRoutes = None, includeAllRoutes = None\<rparr>
     (Some [RouteRecordRaw (Some ''/user/:id'') None, RouteRecordRaw (Some ''/about'') None,
            RouteRecordRaw (Some ''/about'') None, RouteRecordRaw (Some ''/files/*'') None]) = [''/about'']
   \<and> routesPaths \<lparr>includedRoutes = None, includeAllRoutes = Some True\<rparr>
     (Some [RouteRecordRaw (Some ''/user/:id'') None, RouteRecordRaw (Some ''/about'') None,
            RouteRecordRaw (Some ''/about'') None]) = [''/user/:id'', ''/about'']"
  using routesPaths_default_filter [of "\<lparr>includedRoutes = None, includeAllRoutes = None\<rparr>"
      "Some [RouteRecordRaw (Some ''/user/:id'') None, RouteRecordRaw (Some ''/about'') None,
             RouteRecordRaw (Some ''/about'') None, RouteRecordRaw (Some ''/files/*'') None]"]
    routesPaths_default_filter [of "\<lparr>includedRoutes = None, includeAllRoutes = Some True\<rparr>"
      "Some [RouteRecordRaw (Some ''/user/:id'') None, RouteRecordRaw (Some ''/about'') None,
             RouteRecordRaw (Some ''/about'') None]"]
  by (simp add: routesToPaths_def strip_trailing_slash_def truthy_def join_prefix_def set_add_def)

text \<open>
  The counterexample to C3 as stated: \<open>includeAllRoutes\<close> is \<open>false\<close> and the option
  \<open>includedRoutes\<close> is a function that keeps every path; the dynamic route is dispatched.
\<close>

theorem routesPaths_custom_filter_counterexample:
  "routesPaths \<lparr>includedRoutes = Some id, includeAllRoutes = Some False\<rparr>
     (Some [RouteRecordRaw (Some ''/user/:id'') None]) = [''/user/:id'']"
  by (simp add: routesPaths_def uniq_def routesToPaths_def strip_trailing_slash_def truthy_def
      join_prefix_def set_add_def)

subsection \<open>The path of a child\<close>




subsection \<open>A route without a path\<close>




section \<open>Properties of the output file name\<close>

lemma splitSlash_no_slash: "CHR ''/'' \<notin> set s \<Longrightarrow> splitSlash s = [s]"
  by (induction s) auto

lemma splitSlash_append:
  "CHR ''/'' \<notin> set s \<Longrightarrow> splitSlash (s @ CHR ''/'' # t) = s # splitSlash t"
  by (induction s) auto

lemma splitSlash_joinSlash:
  "segs \<noteq> [] \<Longrightarrow> \<forall>s \<in> set segs. CHR ''/'' \<notin> set s \<Longrightarrow> splitSlash (joinSlash segs) = segs"
proof (induction segs rule: joinSlash.induct)
  case 1
  then show ?case by simp
next
  case (2 s)
  then show ?case by (simp add: splitSlash_no_slash)
next
  case (3 s t ss)
  then show ?case by (simp add: splitSlash_append)
qed

lemma normalizeString_plain:
  "\<forall>s \<in> set segs. plain_segment s \<Longrightarrow> normalizeString a segs res = rev res @ segs"
  by (induction segs arbitrary: res) (auto simp: plain_segment_def)

lemma joinSlash_snoc: "segs \<noteq> [] \<Longrightarrow> joinSlash (segs @ [t]) = joinSlash segs @ ''/'' @ t"
  by (induction segs rule: joinSlash.induct) auto

lemma joinSlash_plain_hd:
  "segs \<noteq> [] \<Longrightarrow> \<forall>s \<in> set segs. plain_segment s \<Longrightarrow>
     joinSlash segs \<noteq> [] \<and> hd (joinSlash segs) \<noteq> CHR ''/''"
proof -
  assume "segs \<noteq> []" and p: "\<forall>s \<in> set segs. plain_segment s"
  then obtain s ss where segs: "segs = s # ss" by (cases segs) auto
  then have s: "s \<noteq> []" and "CHR ''/'' \<notin> set s"
    using p by (auto simp: plain_segment_def)
  then have "hd s \<noteq> CHR ''/''"
    by (cases s) auto
  with s show ?thesis
    unfolding segs by (cases ss) auto
qed

lemma join_plain_index:
  assumes "segs \<noteq> []" and "\<forall>s \<in> set segs. plain_segment s"
  shows "join [joinSlash segs, ''index.html''] = joinSlash segs @ ''/index.html''"
proof -
  let ?all = "segs @ [''index.html'']"
  have plain: "\<forall>s \<in> set ?all. plain_segment s"
    using assms(2) by (simp add: plain_segment_def)
  have ne: "joinSlash segs \<noteq> []" and hd: "hd (joinSlash segs) \<noteq> CHR ''/''"
    using joinSlash_plain_hd [OF assms] by simp_all
  have joined: "joinSlash ?all = joinSlash segs @ ''/index.html''"
    using joinSlash_snoc [OF assms(1)] by simp
  have split: "splitSlash (joinSlash ?all) = ?all"
    using plain by (intro splitSlash_joinSlash) (auto simp: plain_segment_def)
  have norm: "normalizeString True ?all [] = ?all"
    using normalizeString_plain [OF plain] by simp
  have "normalize_path (joinSlash ?all) = joinSlash ?all"
    unfolding normalize_path_def Let_def split
    using ne hd by (simp add: joined norm [simplified] del: normalizeString.simps)
  then show ?thesis
    using ne by (simp add: join_def joined)
qed

text \<open>
  Claim C6. With the flat style the route \<open>/\<close> gives \<open>index.html\<close>, \<open>/about\<close> gives
  \<open>about.html\<close> and \<open>/a/b\<close> gives \<open>a/b.html\<close>; in general, for every style other than
  \<open>nested\<close>, a route \<open>/r\<close> that does not end with a slash gives \<open>r.html\<close>. With the
  nested style \<open>/about\<close> gives \<open>about/index.html\<close> and, in general, a route made of
  plain segments gives the route without its leading slash, followed by
  \<open>/index.html\<close>; the root gives \<open>index.html\<close>, the index file of the output directory
  itself, since \<open>join\<close> drops the empty first part.
\<close>

theorem filename_dirStyle:
  "filename ''flat'' ''/'' = ''index.html'' \<and>
   filename ''flat'' ''/about'' = ''about.html'' \<and>
   filename ''flat'' ''/a/b'' = ''a/b.html'' \<and>
   filename ''nested'' ''/'' = ''index.html'' \<and>
   filename ''nested'' ''/about'' = ''about/index.html'' \<and>
   (ds \<noteq> ''nested'' \<and> r \<noteq> [] \<and> \<not> endsWith r ''/'' \<longrightarrow>
      filename ds (CHR ''/'' # r) = r @ ''.html'') \<and>
   (segs \<noteq> [] \<and> (\<forall>s \<in> set segs. plain_segment s) \<longrightarrow>
      filename ''nested'' (CHR ''/'' # joinSlash segs) = joinSlash segs @ ''/index.html'')"
proof (intro conjI impI)
  show "filename ''flat'' ''/'' = ''index.html''"
    by (simp add: filename_def strip_leading_slash_def relativeRouteFile_def endsWith_def suffix_to_prefix)
  show "filename ''flat'' ''/about'' = ''about.html''"
    by (simp add: filename_def strip_leading_slash_def relativeRouteFile_def endsWith_def suffix_to_prefix)
  show "filename ''flat'' ''/a/b'' = ''a/b.html''"
    by (simp add: filename_def strip_leading_slash_def relativeRouteFile_def endsWith_def suffix_to_prefix)
  show "filename ''nested'' ''/'' = ''index.html''"
    by (simp add: filename_def strip_leading_slash_def join_def normalize_path_def)
  show "filename ''nested'' ''/about'' = ''about/index.html''"
    by (simp add: filename_def strip_leading_slash_def join_def normalize_path_def)
next
  assume "ds \<noteq> ''nested'' \<and> r \<noteq> [] \<and> \<not> endsWith r ''/''"
  then show "filename ds (CHR ''/'' # r) = r @ ''.html''"
    by (simp add: filename_def strip_leading_slash_def relativeRouteFile_def endsWith_def
        suffix_to_prefix)
next
  assume "segs \<noteq> [] \<and> (\<forall>s \<in> set segs. plain_segment s)"
  then show "filename ''nested'' (CHR ''/'' # joinSlash segs) = joinSlash segs @ ''/index.html''"
    using join_plain_index [of segs] by (simp add: filename_def strip_leading_slash_def)
qed

text \<open>
  A witness for C6: the route \<open>/docs/guide\<close> gives \<open>docs/guide.html\<close> in the flat
  style and \<open>docs/guide/index.html\<close> in the nested style.
\<close>

theorem filename_dirStyle_witness:
  "filename ''flat'' ''/docs/guide'' = ''docs/guide.html'' \<and>
   filename ''nested'' ''/docs/guide'' = ''docs/guide/index.html''"
  using filename_dirStyle [of "''flat''" "''docs/guide''" "[''docs'', ''guide'']"]
  by (simp add: endsWith_def plain_segment_def suffix_to_prefix)

section \<open>Properties of the splice into the index template\<close>

lemma split_first_no_match: "\<not> sublist pat s \<Longrightarrow> split_first pat s = None"
proof (induction s)
  case Nil
  then show ?case by (cases pat) auto
next
  case (Cons c cs)
  then show ?case by (simp add: sublist_Cons_right)
qed

lemma replace_no_match: "\<not> includes_str s pat \<Longrightarrow> replace s pat r = s"
  by (simp add: replace_def includes_str_def split_first_no_match)





text \<open>
  Claim C9. When the index template does not contain the mount point
  \<open><div id="app"></div>\<close>, \<open>renderHTML\<close> returns the template as it is, whatever the
  rendered fragment and the initial state are: both are dropped, and nothing is raised.
\<close>

theorem renderHTML_no_mount_point:
  "\<not> includes_str template mount_point \<Longrightarrow> renderHTML template appHTML st = template"
  by (simp add: renderHTML_def replace_no_match)

text \<open>
  A witness for C9: a template whose root element has another \<open>id\<close> comes back
  unchanged, although there are a fragment and a state.
\<close>

theorem renderHTML_no_mount_point_witness:
  \<open>\<not> includes_str ''<html><div id="root"></div></html>'' mount_point \<and>
   renderHTML ''<html><div id="root"></div></html>'' ''<p>hi</p>'' (Some ''{"n":1}'')
     = ''<html><div id="root"></div></html>''\<close>
proof -
  have h: \<open>\<not> includes_str ''<html><div id="root"></div></html>'' mount_point\<close>
    by (simp add: includes_str_def mount_point_def sublist_code)
  show ?thesis
    using h renderHTML_no_mount_point [OF h] by simp
qed




section \<open>Properties of the pool size\<close>





section \<open>Properties of the worker and of the batch\<close>

subsection \<open>Sequencing\<close>









subsection \<open>The worker\<close>








subsection \<open>The supervisor\<close>


















subsection \<open>The example build\<close>












subsection \<open>Failures stay in their task\<close>



subsection \<open>The timer that ends the process\<close>




subsection \<open>No route table\<close>



end
